theory Spec2Isabelle
  imports Main "HOL-Library.Sublist"
begin

section \<open>Python values and the operations app.py applies to them\<close>

text \<open>
  Everything app.py reads from a webhook body or from a remote answer is a value that
  \<open>json.loads\<close> produced: \<open>None\<close>, a bool, a number, a string, a list or a dict with
  string keys. A dict is an association list in insertion order; a key is read at its
  first binding (a Python dict holds each key once, so every dict has such a list).
  Numbers are the integers; the program only tests a number for truth, type and
  equality, and fractional numbers are left out of the model.
\<close>

datatype json =
    JNull
  | JBool bool
  | JNum int
  | JStr string
  | JArr "json list"
  | JObj "(string \<times> json) list"

text \<open>The exceptions the program can meet; each is a subclass of \<open>Exception\<close>.\<close>

datatype pyerr =
    TypeError
  | KeyError
  | IndexError
  | AttributeError
  | HTTPError
  | JSONDecodeError
  | BadRequest

text \<open>\<open>bool(x)\<close>, as \<open>if x\<close> and \<open>not x\<close> read it.\<close>

fun truthy :: "json \<Rightarrow> bool" where
  "truthy JNull = False"
| "truthy (JBool b) = b"
| "truthy (JNum n) = (n \<noteq> 0)"
| "truthy (JStr s) = (s \<noteq> [])"
| "truthy (JArr xs) = (xs \<noteq> [])"
| "truthy (JObj kvs) = (kvs \<noteq> [])"

text \<open>
  \<open>x == y\<close>: \<open>True == 1\<close> and \<open>False == 0\<close> hold, lists are equal elementwise,
  dicts when they have the same keys with equal values.
\<close>

fun py_eq :: "json \<Rightarrow> json \<Rightarrow> bool"
  and py_eq_list :: "json list \<Rightarrow> json list \<Rightarrow> bool"
  and py_eq_items :: "(string \<times> json) list \<Rightarrow> (string \<times> json) list \<Rightarrow> bool"
where
  "py_eq JNull y = (y = JNull)"
| "py_eq (JBool a) y =
     (case y of JBool b \<Rightarrow> a = b | JNum n \<Rightarrow> n = (if a then 1 else 0) | _ \<Rightarrow> False)"
| "py_eq (JNum m) y =
     (case y of JNum n \<Rightarrow> m = n | JBool b \<Rightarrow> m = (if b then 1 else 0) | _ \<Rightarrow> False)"
| "py_eq (JStr s) y = (y = JStr s)"
| "py_eq (JArr xs) y = (case y of JArr ys \<Rightarrow> py_eq_list xs ys | _ \<Rightarrow> False)"
| "py_eq (JObj a) y =
     (case y of JObj b \<Rightarrow> length a = length b \<and> py_eq_items a b | _ \<Rightarrow> False)"
| "py_eq_list [] ys = (ys = [])"
| "py_eq_list (x # xs) ys =
     (case ys of [] \<Rightarrow> False | y # ys' \<Rightarrow> py_eq x y \<and> py_eq_list xs ys')"
| "py_eq_items [] b = True"
| "py_eq_items ((k, v) # a) b =
     ((case map_of b k of None \<Rightarrow> False | Some v' \<Rightarrow> py_eq v v') \<and> py_eq_items a b)"

text \<open>\<open>d.get(k, default)\<close>: only a dict has the method.\<close>

fun py_get :: "json \<Rightarrow> string \<Rightarrow> json \<Rightarrow> pyerr + json" where
  "py_get (JObj kvs) k d = Inr (case map_of kvs k of None \<Rightarrow> d | Some v \<Rightarrow> v)"
| "py_get _ k d = Inl AttributeError"

text \<open>\<open>x[k]\<close> with a string key: a missing key of a dict is a KeyError, a list or a
  string takes integer indices only, the other values are not subscriptable.\<close>

fun py_getitem :: "json \<Rightarrow> string \<Rightarrow> pyerr + json" where
  "py_getitem (JObj kvs) k = (case map_of kvs k of None \<Rightarrow> Inl KeyError | Some v \<Rightarrow> Inr v)"
| "py_getitem _ k = Inl TypeError"

text \<open>\<open>x[0]\<close>: the first element of a list, the first character of a string (as a
  string); a dict from JSON has no key \<open>0\<close>.\<close>

fun py_item0 :: "json \<Rightarrow> pyerr + json" where
  "py_item0 (JArr []) = Inl IndexError"
| "py_item0 (JArr (x # xs)) = Inr x"
| "py_item0 (JStr []) = Inl IndexError"
| "py_item0 (JStr (c # cs)) = Inr (JStr [c])"
| "py_item0 (JObj kvs) = Inl KeyError"
| "py_item0 _ = Inl TypeError"

text \<open>\<open>k in x\<close> for a string \<open>k\<close>: a key of a dict, an element of a list, a
  substring of a string; the other values are not iterable.\<close>

fun py_contains :: "string \<Rightarrow> json \<Rightarrow> pyerr + bool" where
  "py_contains k (JObj kvs) = Inr (k \<in> set (map fst kvs))"
| "py_contains k (JArr xs) = Inr (JStr k \<in> set xs)"
| "py_contains k (JStr s) = Inr (sublist k s)"
| "py_contains k _ = Inl TypeError"

text \<open>\<open>for e in x\<close>: the elements of a list, the keys of a dict, the characters of a
  string.\<close>

fun py_iter :: "json \<Rightarrow> pyerr + json list" where
  "py_iter (JArr xs) = Inr xs"
| "py_iter (JObj kvs) = Inr (map JStr (rev (remdups (rev (map fst kvs)))))"
| "py_iter (JStr s) = Inr (map (\<lambda>c. JStr [c]) s)"
| "py_iter _ = Inl TypeError"

text \<open>Sequencing of steps that may raise: the first exception ends the block.\<close>

definition and_then :: "pyerr + 'a \<Rightarrow> ('a \<Rightarrow> pyerr + 'b) \<Rightarrow> pyerr + 'b" where
  "and_then r f = (case r of Inl e \<Rightarrow> Inl e | Inr x \<Rightarrow> f x)"

text \<open>Keys of the \<open>threads\<close> dict: \<open>hash(x)\<close>. \<open>True\<close> and \<open>1\<close> are one key; a list
  or a dict is unhashable.\<close>

datatype pykey = KNone | KInt int | KStr string

fun py_hash :: "json \<Rightarrow> pyerr + pykey" where
  "py_hash JNull = Inr KNone"
| "py_hash (JBool b) = Inr (KInt (if b then 1 else 0))"
| "py_hash (JNum n) = Inr (KInt n)"
| "py_hash (JStr s) = Inr (KStr s)"
| "py_hash _ = Inl TypeError"

section \<open>The process state and the HTTP client\<close>

text \<open>
  One request per call of \<open>http_client.post\<close> or \<open>http_client.get\<close>; the URL is
  determined by the constructor and its arguments (the base URLs, the bearer tokens,
  the assistant id and the phone number id are constants of the process).
\<close>

datatype request =
    CreateThread
  | AddMessage json json
  | StartRun json
  | GetRun json json
  | ListMessages json
  | SendText json json

text \<open>
  What a call comes back with: \<open>Refused\<close> when the client raises or
  \<open>raise_for_status\<close> raises; otherwise the body, \<open>None\<close> when it is not JSON.
\<close>

datatype response = Refused | Answered "json option"

text \<open>
  The module's state is the global \<open>threads\<close> dict. The remote ends are a script: the
  answers they will give, one per call, in the order of the calls; \<open>sent\<close> lists the
  calls made so far, oldest first. When the script is used up the call raises, as on an
  unreachable host.
\<close>

record world =
  threads :: "pykey \<rightharpoonup> json"
  sent :: "request list"
  remote :: "response list"

definition http_client :: "request \<Rightarrow> world \<Rightarrow> response \<times> world" where
  "http_client rq w =
     (case remote w of
        [] \<Rightarrow> (Refused, w\<lparr>sent := sent w @ [rq]\<rparr>)
      | r # rs \<Rightarrow> (r, w\<lparr>sent := sent w @ [rq], remote := rs\<rparr>))"

fun raise_for_status :: "response \<Rightarrow> pyerr + unit" where
  "raise_for_status Refused = Inl HTTPError"
| "raise_for_status (Answered b) = Inr ()"

text \<open>\<open>raise_for_status()\<close> followed by \<open>.json()\<close>.\<close>

fun response_json :: "response \<Rightarrow> pyerr + json" where
  "response_json Refused = Inl HTTPError"
| "response_json (Answered None) = Inl JSONDecodeError"
| "response_json (Answered (Some b)) = Inr b"

section \<open>WhatsAppService\<close>

text \<open>\<open>send_message\<close>: one POST; any exception becomes \<open>False\<close>.\<close>

definition send_message :: "json \<Rightarrow> json \<Rightarrow> world \<Rightarrow> bool \<times> world" where
  "send_message phone_id message w =
     (let (r, w1) = http_client (SendText phone_id message) w in
      case raise_for_status r of Inl e \<Rightarrow> (False, w1) | Inr u \<Rightarrow> (True, w1))"

section \<open>OpenAIService\<close>

text \<open>
  \<open>get_or_create_thread\<close>: the membership test stands before the \<open>try\<close>; inside it
  every exception is logged and raised again, so the caller sees it either way.
\<close>

definition get_or_create_thread :: "json \<Rightarrow> world \<Rightarrow> (pyerr + json) \<times> world" where
  "get_or_create_thread user_id w =
     (case py_hash user_id of
        Inl e \<Rightarrow> (Inl e, w)
      | Inr k \<Rightarrow>
          (case threads w k of
             Some t \<Rightarrow> (Inr t, w)
           | None \<Rightarrow>
               (let (r, w1) = http_client CreateThread w in
                case and_then (response_json r) (\<lambda>thread_data. py_getitem thread_data ''id'') of
                  Inl e \<Rightarrow> (Inl e, w1)
                | Inr thread_id \<Rightarrow> (Inr thread_id, w1\<lparr>threads := (threads w1)(k \<mapsto> thread_id)\<rparr>))))"

text \<open>\<open>add_message_to_thread\<close>: one POST; any exception becomes \<open>False\<close>.\<close>

definition add_message_to_thread :: "json \<Rightarrow> json \<Rightarrow> world \<Rightarrow> bool \<times> world" where
  "add_message_to_thread thread_id message w =
     (let (r, w1) = http_client (AddMessage thread_id message) w in
      case raise_for_status r of Inl e \<Rightarrow> (False, w1) | Inr u \<Rightarrow> (True, w1))"

text \<open>\<open>messages[0]["content"][0]["text"]["value"]\<close>: the text of one item of the
  list, and that of the first item.\<close>

definition item_text :: "json \<Rightarrow> pyerr + json" where
  "item_text m =
     and_then (py_getitem m ''content'') (\<lambda>c.
     and_then (py_item0 c) (\<lambda>part.
     and_then (py_getitem part ''text'') (\<lambda>t.
     py_getitem t ''value'')))"

definition first_text :: "json \<Rightarrow> pyerr + json" where
  "first_text messages = and_then (py_item0 messages) item_text"

text \<open>The branch of the loop for \<open>status == "completed"\<close>: it always leaves the loop,
  with the text, with \<open>None\<close> for an empty list, or with an exception.\<close>

definition fetch_reply :: "json \<Rightarrow> world \<Rightarrow> (pyerr + json) \<times> world" where
  "fetch_reply thread_id w =
     (let (r, w1) = http_client (ListMessages thread_id) w in
      case and_then (response_json r) (\<lambda>b. py_getitem b ''data'') of
        Inl e \<Rightarrow> (Inl e, w1)
      | Inr messages \<Rightarrow>
          if truthy messages then (first_text messages, w1) else (Inr JNull, w1))"

text \<open>
  \<open>for attempt in range(max_attempts)\<close>: the first argument is the number of attempts
  left. \<open>time.sleep(1)\<close> has no effect on the state. Falling out of the loop, by
  \<open>break\<close> or by exhaustion, reaches \<open>return None\<close>.
\<close>

fun poll :: "nat \<Rightarrow> json \<Rightarrow> json \<Rightarrow> world \<Rightarrow> (pyerr + json) \<times> world" where
  "poll 0 thread_id run_id w = (Inr JNull, w)"
| "poll (Suc n) thread_id run_id w =
     (let (r, w1) = http_client (GetRun thread_id run_id) w in
      case and_then (response_json r) (\<lambda>b. py_getitem b ''status'') of
        Inl e \<Rightarrow> (Inl e, w1)
      | Inr status \<Rightarrow>
          if py_eq status (JStr ''completed'') then fetch_reply thread_id w1
          else if py_eq status (JStr ''failed'') \<or> py_eq status (JStr ''cancelled'')
                  \<or> py_eq status (JStr ''expired'')
          then (Inr JNull, w1)
          else poll n thread_id run_id w1)"

definition max_attempts :: nat where
  "max_attempts = 10"

definition run_assistant_body :: "json \<Rightarrow> world \<Rightarrow> (pyerr + json) \<times> world" where
  "run_assistant_body thread_id w =
     (let (r, w1) = http_client (StartRun thread_id) w in
      case and_then (response_json r) (\<lambda>b. py_getitem b ''id'') of
        Inl e \<Rightarrow> (Inl e, w1)
      | Inr run_id \<Rightarrow> poll max_attempts thread_id run_id w1)"

text \<open>\<open>run_assistant\<close>: the body in \<open>try\<close>; any exception becomes \<open>None\<close>.\<close>

definition run_assistant :: "json \<Rightarrow> world \<Rightarrow> json \<times> world" where
  "run_assistant thread_id w =
     (case run_assistant_body thread_id w of
        (Inl e, w1) \<Rightarrow> (JNull, w1)
      | (Inr v, w1) \<Rightarrow> (v, w1))"

section \<open>The webhook routes\<close>

text \<open>
  \<open>Config.VERIFY_TOKEN = os.getenv('VERIFY_TOKEN', '12345')\<close>, read from the
  environment of the process.
\<close>

definition VERIFY_TOKEN :: "(string \<rightharpoonup> string) \<Rightarrow> string" where
  "VERIFY_TOKEN env = (case env ''VERIFY_TOKEN'' of None \<Rightarrow> ''12345'' | Some v \<Rightarrow> v)"

text \<open>
  What a view function returns: a bare value (a string, or \<open>None\<close> when
  \<open>request.args.get\<close> found no parameter) or a pair of body and status. Flask answers a
  bare string with status 200 and that body; \<open>None\<close> is not a response, and the
  request ends in the framework's 500 page.
\<close>

datatype view_return = Ret "string option" | RetStatus string nat

fun http_status :: "view_return \<Rightarrow> nat" where
  "http_status (Ret (Some b)) = 200"
| "http_status (Ret None) = 500"
| "http_status (RetStatus b s) = s"

fun http_body :: "view_return \<Rightarrow> string option" where
  "http_body (Ret b) = b"
| "http_body (RetStatus b s) = Some b"

text \<open>\<open>verify_webhook\<close>: each query parameter is \<open>None\<close> when absent.\<close>

definition verify_webhook ::
  "(string \<rightharpoonup> string) \<Rightarrow> string option \<Rightarrow> string option \<Rightarrow> string option \<Rightarrow> view_return" where
  "verify_webhook env mode token challenge =
     (if mode = Some ''subscribe'' \<and> token = Some (VERIFY_TOKEN env)
      then Ret challenge
      else RetStatus ''Forbidden'' 403)"

section \<open>process_message\<close>

text \<open>The scan of the contacts for the sender's display name, ended by \<open>break\<close> at
  the first match.\<close>

fun find_contact :: "json \<Rightarrow> json list \<Rightarrow> pyerr + json" where
  "find_contact phone_id [] = Inr (JStr ''Unknown'')"
| "find_contact phone_id (contact # rest) =
     (case py_get contact ''wa_id'' JNull of
        Inl e \<Rightarrow> Inl e
      | Inr wa_id \<Rightarrow>
          if py_eq wa_id phone_id
          then and_then (py_get contact ''profile'' (JObj [])) (\<lambda>p. py_get p ''name'' (JStr ''Unknown''))
          else find_contact phone_id rest)"

text \<open>The \<open>try\<close> block of \<open>process_message\<close>, statement by statement.\<close>

definition process_message_body :: "json \<Rightarrow> json \<Rightarrow> world \<Rightarrow> (pyerr + unit) \<times> world" where
  "process_message_body message contacts w =
     (case py_get message ''from'' JNull of
        Inl e \<Rightarrow> (Inl e, w)
      | Inr phone_id \<Rightarrow>
     (case and_then (py_get message ''text'' (JObj [])) (\<lambda>t. py_get t ''body'' (JStr [])) of
        Inl e \<Rightarrow> (Inl e, w)
      | Inr message_text \<Rightarrow>
     if \<not> truthy phone_id then (Inr (), w)
     else
     (case and_then (py_iter contacts) (find_contact phone_id) of
        Inl e \<Rightarrow> (Inl e, w)
      | Inr contact_name \<Rightarrow>
     (case get_or_create_thread phone_id w of
        (Inl e, w1) \<Rightarrow> (Inl e, w1)
      | (Inr thread_id, w1) \<Rightarrow>
     (case add_message_to_thread thread_id message_text w1 of
        (False, w2) \<Rightarrow> (Inr (), w2)
      | (True, w2) \<Rightarrow>
     (case run_assistant thread_id w2 of
        (ai_response, w3) \<Rightarrow>
          if truthy ai_response
          then (case send_message phone_id ai_response w3 of (success, w4) \<Rightarrow> (Inr (), w4))
          else (Inr (), w3)))))))"

text \<open>\<open>process_message\<close>: the \<open>except\<close> clause logs the exception and returns.\<close>

definition process_message :: "json \<Rightarrow> json \<Rightarrow> world \<Rightarrow> world" where
  "process_message message contacts w = snd (process_message_body message contacts w)"

section \<open>handle_webhook\<close>

text \<open>A \<open>for\<close> loop whose body may raise: the exception leaves the loop.\<close>

fun for_each ::
  "('a \<Rightarrow> world \<Rightarrow> (pyerr + unit) \<times> world) \<Rightarrow> 'a list \<Rightarrow> world \<Rightarrow> (pyerr + unit) \<times> world" where
  "for_each f [] w = (Inr (), w)"
| "for_each f (x # xs) w =
     (case f x w of (Inl e, w1) \<Rightarrow> (Inl e, w1) | (Inr u, w1) \<Rightarrow> for_each f xs w1)"

text \<open>
  The handler is written over the orchestrator it calls, \<open>pm\<close>, which returns normally
  whatever happens inside it. The body of the innermost loop:
  \<open>process_message(message, value.get('contacts', []))\<close>.
\<close>

definition hand_over ::
  "(json \<Rightarrow> json \<Rightarrow> world \<Rightarrow> world) \<Rightarrow> json \<Rightarrow> json \<Rightarrow> world \<Rightarrow> (pyerr + unit) \<times> world" where
  "hand_over pm val message w =
     (case py_get val ''contacts'' (JArr []) of
        Inl e \<Rightarrow> (Inl e, w)
      | Inr contacts \<Rightarrow> (Inr (), pm message contacts w))"

text \<open>The body of \<open>for change in ...\<close>; \<open>continue\<close> ends it normally.\<close>

definition handle_change ::
  "(json \<Rightarrow> json \<Rightarrow> world \<Rightarrow> world) \<Rightarrow> json \<Rightarrow> world \<Rightarrow> (pyerr + unit) \<times> world" where
  "handle_change pm change w =
     (case py_get change ''field'' JNull of
        Inl e \<Rightarrow> (Inl e, w)
      | Inr field \<Rightarrow>
          if py_eq field (JStr ''messages'') then
            (case py_get change ''value'' (JObj []) of
               Inl e \<Rightarrow> (Inl e, w)
             | Inr val \<Rightarrow>
                 (case py_contains ''statuses'' val of
                    Inl e \<Rightarrow> (Inl e, w)
                  | Inr True \<Rightarrow> (Inr (), w)
                  | Inr False \<Rightarrow>
                      (case and_then (py_get val ''messages'' (JArr [])) py_iter of
                         Inl e \<Rightarrow> (Inl e, w)
                       | Inr messages \<Rightarrow> for_each (hand_over pm val) messages w)))
          else (Inr (), w))"

text \<open>The body of \<open>for entry in ...\<close>.\<close>

definition handle_entry ::
  "(json \<Rightarrow> json \<Rightarrow> world \<Rightarrow> world) \<Rightarrow> json \<Rightarrow> world \<Rightarrow> (pyerr + unit) \<times> world" where
  "handle_entry pm entry w =
     (case and_then (py_get entry ''changes'' (JArr [])) py_iter of
        Inl e \<Rightarrow> (Inl e, w)
      | Inr changes \<Rightarrow> for_each (handle_change pm) changes w)"

text \<open>
  The \<open>try\<close> block of \<open>handle_webhook\<close>. Its argument is the outcome of
  \<open>request.get_json()\<close>: the parsed body, or the exception Flask raises on a body that is
  not JSON. The guard is \<open>not data or 'object' not in data or data['object'] != ...\<close>,
  evaluated left to right.
\<close>

definition handle_webhook_body ::
  "(json \<Rightarrow> json \<Rightarrow> world \<Rightarrow> world) \<Rightarrow> pyerr + json \<Rightarrow> world \<Rightarrow> (pyerr + view_return) \<times> world" where
  "handle_webhook_body pm got w =
     (case got of
        Inl e \<Rightarrow> (Inl e, w)
      | Inr data \<Rightarrow>
          if \<not> truthy data then (Inr (RetStatus ''OK'' 200), w)
          else
            (case py_contains ''object'' data of
               Inl e \<Rightarrow> (Inl e, w)
             | Inr False \<Rightarrow> (Inr (RetStatus ''OK'' 200), w)
             | Inr True \<Rightarrow>
                 (case py_getitem data ''object'' of
                    Inl e \<Rightarrow> (Inl e, w)
                  | Inr obj \<Rightarrow>
                      if \<not> py_eq obj (JStr ''whatsapp_business_account'')
                      then (Inr (RetStatus ''OK'' 200), w)
                      else
                        (case and_then (py_get data ''entry'' (JArr [])) py_iter of
                           Inl e \<Rightarrow> (Inl e, w)
                         | Inr entries \<Rightarrow>
                             (case for_each (handle_entry pm) entries w of
                                (Inl e, w1) \<Rightarrow> (Inl e, w1)
                              | (Inr u, w1) \<Rightarrow> (Inr (RetStatus ''OK'' 200), w1))))))"

text \<open>The \<open>except\<close> clause answers \<open>'OK', 200\<close> as well.\<close>

definition handle_webhook_with ::
  "(json \<Rightarrow> json \<Rightarrow> world \<Rightarrow> world) \<Rightarrow> pyerr + json \<Rightarrow> world \<Rightarrow> view_return \<times> world" where
  "handle_webhook_with pm got w =
     (case handle_webhook_body pm got w of
        (Inl e, w1) \<Rightarrow> (RetStatus ''OK'' 200, w1)
      | (Inr r, w1) \<Rightarrow> (r, w1))"

definition handle_webhook :: "pyerr + json \<Rightarrow> world \<Rightarrow> view_return \<times> world" where
  "handle_webhook = handle_webhook_with process_message"

section \<open>The operations of the program, as steps on the state\<close>

text \<open>
  Every function of app.py that can touch the state, with its arguments. A run of the
  process after start-up is a sequence of such steps.
\<close>

datatype operation =
    Resolve json
  | Append json json
  | RunJob json
  | Reply json json
  | Process json json
  | Webhook "pyerr + json"

fun perform :: "operation \<Rightarrow> world \<Rightarrow> world" where
  "perform (Resolve user_id) w = snd (get_or_create_thread user_id w)"
| "perform (Append thread_id message) w = snd (add_message_to_thread thread_id message w)"
| "perform (RunJob thread_id) w = snd (run_assistant thread_id w)"
| "perform (Reply phone_id message) w = snd (send_message phone_id message w)"
| "perform (Process message contacts) w = process_message message contacts w"
| "perform (Webhook got) w = snd (handle_webhook got w)"

section \<open>Status answers and status checks\<close>

text \<open>An answer to a status check that leaves the run going: it has a status, and
  the status is none of the four that end the loop.\<close>

definition pending :: "json \<Rightarrow> bool" where
  "pending b =
     (case py_getitem b ''status'' of
        Inl e \<Rightarrow> False
      | Inr status \<Rightarrow>
          status \<noteq> JStr ''completed'' \<and> status \<noteq> JStr ''failed''
          \<and> status \<noteq> JStr ''cancelled'' \<and> status \<noteq> JStr ''expired'')"

text \<open>The requests that are status checks of a run.\<close>

fun is_status_check :: "request \<Rightarrow> bool" where
  "is_status_check (GetRun thread_id run_id) = True"
| "is_status_check _ = False"

section \<open>The delivery notification, as the specification reads it\<close>

text \<open>
  The notification is accepted when its top-level \<open>object\<close> field is the literal
  \<open>whatsapp_business_account\<close>.
\<close>

fun accepted :: "json \<Rightarrow> bool" where
  "accepted (JObj kvs) = (map_of kvs ''object'' = Some (JStr ''whatsapp_business_account''))"
| "accepted _ = False"

text \<open>A field of an object, with the default the handler gives for it; the elements
  of an array.\<close>

fun member_or :: "string \<Rightarrow> json \<Rightarrow> json \<Rightarrow> json" where
  "member_or k d (JObj kvs) = (case map_of kvs k of None \<Rightarrow> d | Some v \<Rightarrow> v)"
| "member_or k d _ = d"

fun elements :: "json \<Rightarrow> json list" where
  "elements (JArr xs) = xs"
| "elements _ = []"

fun is_object :: "json \<Rightarrow> bool" where
  "is_object (JObj kvs) = True"
| "is_object _ = False"

fun is_array :: "json \<Rightarrow> bool" where
  "is_array (JArr xs) = True"
| "is_array _ = False"

text \<open>A change is about messages when its \<open>field\<close> is \<open>messages\<close>; its value carries
  status updates when it has the key \<open>statuses\<close>.\<close>

definition messages_change :: "json \<Rightarrow> bool" where
  "messages_change change = (member_or ''field'' JNull change = JStr ''messages'')"

fun carries_statuses :: "json \<Rightarrow> bool" where
  "carries_statuses (JObj kvs) = (''statuses'' \<in> set (map fst kvs))"
| "carries_statuses _ = False"

text \<open>
  The message entries of a notification, each with the contacts of its change, in the
  order of the document: every entry, every change about messages that carries no
  status updates, every message of its value.
\<close>

definition deliveries_of_change :: "json \<Rightarrow> (json \<times> json) list" where
  "deliveries_of_change change =
     (let val = member_or ''value'' (JObj []) change in
      if messages_change change \<and> \<not> carries_statuses val
      then map (\<lambda>m. (m, member_or ''contacts'' (JArr []) val))
             (elements (member_or ''messages'' (JArr []) val))
      else [])"

definition deliveries_of_entry :: "json \<Rightarrow> (json \<times> json) list" where
  "deliveries_of_entry entry =
     concat (map deliveries_of_change (elements (member_or ''changes'' (JArr []) entry)))"

definition deliveries :: "json \<Rightarrow> (json \<times> json) list" where
  "deliveries data =
     concat (map deliveries_of_entry (elements (member_or ''entry'' (JArr []) data)))"

text \<open>
  The shape of the provider's schema, as far as the handler reads it: \<open>entry\<close> is an
  array of objects, \<open>changes\<close> an array of objects, the value of a change about messages
  an object, and its \<open>messages\<close> an array. An absent field has the handler's default.
\<close>

definition change_shaped :: "json \<Rightarrow> bool" where
  "change_shaped change =
     (is_object change \<and>
      (messages_change change \<longrightarrow>
         is_object (member_or ''value'' (JObj []) change) \<and>
         (\<not> carries_statuses (member_or ''value'' (JObj []) change) \<longrightarrow>
            is_array (member_or ''messages'' (JArr []) (member_or ''value'' (JObj []) change)))))"

definition entry_shaped :: "json \<Rightarrow> bool" where
  "entry_shaped entry =
     (is_object entry \<and> is_array (member_or ''changes'' (JArr []) entry) \<and>
      list_all change_shaped (elements (member_or ''changes'' (JArr []) entry)))"

definition notification_shaped :: "json \<Rightarrow> bool" where
  "notification_shaped data =
     (is_array (member_or ''entry'' (JArr []) data) \<and>
      list_all entry_shaped (elements (member_or ''entry'' (JArr []) data)))"

section \<open>Sample states and payloads\<close>

text \<open>Concrete answers, states and payloads, used to run the theorems below.\<close>

definition thread_created :: response where
  "thread_created = Answered (Some (JObj [(''id'', JStr ''thread_1'')]))"

definition w_fresh :: world where
  "w_fresh = \<lparr>threads = Map.empty, sent = [], remote = [thread_created, Refused]\<rparr>"

definition w_down :: world where
  "w_down = \<lparr>threads = Map.empty, sent = [], remote = [Refused, thread_created]\<rparr>"

definition running :: json where
  "running = JObj [(''status'', JStr ''running'')]"

definition run_started :: json where
  "run_started = JObj [(''id'', JStr ''run_1'')]"

definition w_slow :: world where
  "w_slow = \<lparr>threads = Map.empty, sent = [],
     remote = Answered (Some run_started) # map (\<lambda>b. Answered (Some b)) (replicate 10 running)
        @ [Answered (Some running)]\<rparr>"

definition completed :: json where
  "completed = JObj [(''status'', JStr ''completed'')]"

definition reply_item :: json where
  "reply_item = JObj [(''content'', JArr [JObj [(''text'', JObj [(''value'', JStr ''Hi there'')])]])]"

definition w_reply :: "json \<Rightarrow> world" where
  "w_reply messages = \<lparr>threads = Map.empty, sent = [],
     remote = map (\<lambda>b. Answered (Some b))
       [run_started, running, running, completed, JObj [(''data'', messages)]]\<rparr>"

definition hello_message :: json where
  "hello_message = JObj [(''from'', JStr ''111''), (''text'', JObj [(''body'', JStr ''Hello'')])]"

definition w_append_refused :: world where
  "w_append_refused = \<lparr>threads = Map.empty, sent = [],
     remote = [thread_created, Refused, Answered (Some run_started), Answered (Some completed)]\<rparr>"

definition image_message :: json where
  "image_message = JObj [(''from'', JStr ''111''), (''type'', JStr ''image'')]"

definition page_payload :: json where
  "page_payload = JObj [(''object'', JStr ''page''),
     (''entry'', JArr [JObj [(''changes'', JArr [JObj [(''field'', JStr ''messages''),
        (''value'', JObj [(''messages'', JArr [hello_message])])]])]])]"

definition sample_contacts :: json where
  "sample_contacts = JArr [JObj [(''wa_id'', JStr ''111''), (''profile'', JObj [(''name'', JStr ''Ann'')])]]"

definition sample_notification :: json where
  "sample_notification =
     JObj [(''object'', JStr ''whatsapp_business_account''),
       (''entry'', JArr [
          JObj [(''id'', JStr ''1''),
            (''changes'', JArr [
               JObj [(''field'', JStr ''messages''),
                 (''value'', JObj [(''statuses'', JArr [JObj [(''status'', JStr ''delivered'')]]),
                                    (''messages'', JArr [hello_message])])],
               JObj [(''field'', JStr ''account_update''), (''value'', JNum 5)],
               JObj [(''field'', JStr ''messages''),
                 (''value'', JObj [(''contacts'', sample_contacts),
                                    (''messages'', JArr [hello_message, image_message])])]])],
          JObj [(''changes'', JArr [
               JObj [(''field'', JStr ''messages''),
                 (''value'', JObj [(''messages'', JArr [hello_message])])]])]])]"

definition hello_notification :: json where
  "hello_notification =
     JObj [(''object'', JStr ''whatsapp_business_account''),
       (''entry'', JArr [JObj [(''changes'', JArr [
          JObj [(''field'', JStr ''messages''),
                (''value'', JObj [(''contacts'', sample_contacts),
                                   (''messages'', JArr [hello_message])])]])]])]"

definition w_replying :: world where
  "w_replying = \<lparr>threads = Map.empty, sent = [],
     remote = thread_created # map (\<lambda>b. Answered (Some b))
       [JNull, run_started, running, completed, JObj [(''data'', JArr [reply_item])], JNull]\<rparr>"

definition misshapen_notification :: json where
  "misshapen_notification =
     JObj [(''object'', JStr ''whatsapp_business_account''),
       (''entry'', JArr [JNum 5,
          JObj [(''changes'', JArr [
             JObj [(''field'', JStr ''messages''),
                   (''value'', JObj [(''messages'', JArr [hello_message])])]])]])]"

section \<open>Facts about the services\<close>

lemma py_eq_JStr: "py_eq x (JStr s) = (x = JStr s)"
  by (cases x) auto

lemma http_client_sent: "sent (snd (http_client rq w)) = sent w @ [rq]"
  by (simp add: http_client_def split: list.split)

lemma http_client_threads: "threads (snd (http_client rq w)) = threads w"
  by (simp add: http_client_def split: list.split)

lemma http_client_remote: "remote (snd (http_client rq w)) = tl (remote w)"
  by (simp add: http_client_def split: list.split)

lemma http_client_eq:
  "http_client rq w = (r, w1) \<Longrightarrow> threads w1 = threads w \<and> sent w1 = sent w @ [rq]"
  by (auto simp: http_client_def split: list.splits)

lemma get_or_create_thread_hit:
  "py_hash x = Inr k \<Longrightarrow> threads w k = Some h \<Longrightarrow> get_or_create_thread x w = (Inr h, w)"
  by (simp add: get_or_create_thread_def)

lemma get_or_create_thread_miss_sent:
  "py_hash x = Inr k \<Longrightarrow> threads w k = None \<Longrightarrow>
   sent (snd (get_or_create_thread x w)) = sent w @ [CreateThread]"
  by (auto simp: get_or_create_thread_def Let_def http_client_def split: prod.splits sum.splits list.splits)

lemma get_or_create_thread_miss_stores:
  "py_hash x = Inr k \<Longrightarrow> threads w k = None \<Longrightarrow> fst (get_or_create_thread x w) = Inr h \<Longrightarrow>
   threads (snd (get_or_create_thread x w)) = (threads w)(k \<mapsto> h)"
  by (auto simp: get_or_create_thread_def Let_def http_client_def split: prod.splits sum.splits list.splits)

lemma get_or_create_thread_miss_fails:
  "py_hash x = Inr k \<Longrightarrow> threads w k = None \<Longrightarrow> fst (get_or_create_thread x w) = Inl e \<Longrightarrow>
   threads (snd (get_or_create_thread x w)) = threads w"
  by (auto simp: get_or_create_thread_def Let_def http_client_def split: prod.splits sum.splits list.splits)

lemma get_or_create_thread_keeps:
  "threads w k = Some t \<Longrightarrow> threads (snd (get_or_create_thread x w)) k = Some t"
  by (auto simp: get_or_create_thread_def Let_def http_client_def split: prod.splits sum.splits list.splits option.splits)

lemma add_message_to_thread_threads:
  "threads (snd (add_message_to_thread th m w)) = threads w"
  by (auto simp: add_message_to_thread_def Let_def http_client_def split: prod.splits sum.splits list.splits)

lemma send_message_threads:
  "threads (snd (send_message p m w)) = threads w"
  by (auto simp: send_message_def Let_def http_client_def split: prod.splits sum.splits list.splits)

lemma fetch_reply_threads: "threads (snd (fetch_reply th w)) = threads w"
  by (auto simp: fetch_reply_def Let_def http_client_def split: prod.splits sum.splits list.splits)

lemma poll_threads: "threads (snd (poll n th r w)) = threads w"
proof (induction n arbitrary: w)
  case 0
  show ?case by simp
next
  case (Suc n)
  obtain r1 w1 where h: "http_client (GetRun th r) w = (r1, w1)"
    by (cases "http_client (GetRun th r) w")
  then have t: "threads w1 = threads w"
    by (simp add: http_client_eq)
  show ?case
    using Suc [of w1] t by (simp add: h fetch_reply_threads split: sum.split)
qed

lemma run_assistant_snd: "snd (run_assistant th w) = snd (run_assistant_body th w)"
  by (simp add: run_assistant_def split: prod.split sum.split)

lemma run_assistant_threads: "threads (snd (run_assistant th w)) = threads w"
proof -
  obtain r1 w1 where h: "http_client (StartRun th) w = (r1, w1)"
    by (cases "http_client (StartRun th) w")
  then have t: "threads w1 = threads w"
    by (simp add: http_client_eq)
  have "threads (snd (run_assistant_body th w)) = threads w"
    using t by (simp add: run_assistant_body_def h poll_threads split: sum.split)
  then show ?thesis
    by (simp add: run_assistant_snd)
qed

lemma add_message_to_thread_eq:
  "add_message_to_thread th m w = (b, w1) \<Longrightarrow> threads w1 = threads w"
  using add_message_to_thread_threads [of th m w] by simp

lemma send_message_eq:
  "send_message p m w = (b, w1) \<Longrightarrow> threads w1 = threads w"
  using send_message_threads [of p m w] by simp

lemma run_assistant_eq:
  "run_assistant th w = (v, w1) \<Longrightarrow> threads w1 = threads w"
  using run_assistant_threads [of th w] by simp

lemma get_or_create_thread_eq:
  "get_or_create_thread x w = (r, w1) \<Longrightarrow> threads w k = Some t \<Longrightarrow> threads w1 k = Some t"
  using get_or_create_thread_keeps [of w k t x] by simp

lemma process_message_keeps:
  "threads w k = Some t \<Longrightarrow> threads (process_message m c w) k = Some t"
  unfolding process_message_def process_message_body_def
  by (auto split: sum.split prod.split bool.split
      dest!: add_message_to_thread_eq send_message_eq run_assistant_eq
      dest: get_or_create_thread_eq)


lemma for_each_keeps:
  assumes "\<And>x w. threads w k = Some t \<Longrightarrow> threads (snd (f x w)) k = Some t"
  shows "threads w k = Some t \<Longrightarrow> threads (snd (for_each f xs w)) k = Some t"
proof (induction xs arbitrary: w)
  case Nil
  then show ?case by simp
next
  case (Cons x xs)
  obtain r w1 where h: "f x w = (r, w1)"
    by (cases "f x w")
  have "threads w1 k = Some t"
    using assms [OF Cons.prems, of x] h by simp
  then show ?case
    using Cons.IH [of w1] h by (simp split: sum.split)
qed

lemma hand_over_keeps:
  assumes "\<And>m c w. threads w k = Some t \<Longrightarrow> threads (pm m c w) k = Some t"
  shows "threads w k = Some t \<Longrightarrow> threads (snd (hand_over pm val m w)) k = Some t"
  using assms by (simp add: hand_over_def split: sum.split)

lemma handle_change_keeps:
  assumes "\<And>m c w. threads w k = Some t \<Longrightarrow> threads (pm m c w) k = Some t"
  shows "threads w k = Some t \<Longrightarrow> threads (snd (handle_change pm ch w)) k = Some t"
proof -
  assume a: "threads w k = Some t"
  have "\<And>val ms. threads (snd (for_each (hand_over pm val) ms w)) k = Some t"
    by (rule for_each_keeps [OF hand_over_keeps [OF assms] a])
  then show ?thesis
    using a by (simp add: handle_change_def split: sum.split bool.split)
qed

lemma handle_entry_keeps:
  assumes "\<And>m c w. threads w k = Some t \<Longrightarrow> threads (pm m c w) k = Some t"
  shows "threads w k = Some t \<Longrightarrow> threads (snd (handle_entry pm en w)) k = Some t"
proof -
  assume a: "threads w k = Some t"
  have "\<And>cs. threads (snd (for_each (handle_change pm) cs w)) k = Some t"
    by (rule for_each_keeps [OF handle_change_keeps [OF assms] a])
  then show ?thesis
    using a by (simp add: handle_entry_def split: sum.split)
qed

lemma handle_webhook_with_snd:
  "snd (handle_webhook_with pm got w) = snd (handle_webhook_body pm got w)"
  by (simp add: handle_webhook_with_def split: prod.split sum.split)

lemma handle_webhook_with_keeps:
  assumes "\<And>m c w. threads w k = Some t \<Longrightarrow> threads (pm m c w) k = Some t"
  shows "threads w k = Some t \<Longrightarrow> threads (snd (handle_webhook_with pm got w)) k = Some t"
proof -
  assume a: "threads w k = Some t"
  have e: "\<And>es. threads (snd (for_each (handle_entry pm) es w)) k = Some t"
    by (rule for_each_keeps [OF handle_entry_keeps [OF assms] a])
  have e': "\<And>es r w1. for_each (handle_entry pm) es w = (r, w1) \<Longrightarrow> threads w1 k = Some t"
    using e by (metis snd_conv)
  have "threads (snd (handle_webhook_body pm got w)) k = Some t"
    unfolding handle_webhook_body_def
    using a e'
    by (auto split: sum.split bool.split prod.split)
  then show ?thesis
    by (simp add: handle_webhook_with_snd)
qed

lemma perform_keeps: "threads w k = Some t \<Longrightarrow> threads (perform opn w) k = Some t"
proof (cases opn)
  case (Webhook got)
  assume "threads w k = Some t"
  then show ?thesis
    using handle_webhook_with_keeps [of k t process_message w got] process_message_keeps
    by (simp add: Webhook handle_webhook_def)
qed (simp_all add: get_or_create_thread_keeps add_message_to_thread_threads
      run_assistant_threads send_message_threads process_message_keeps)

lemma fold_perform_keeps:
  "threads w k = Some t \<Longrightarrow> threads (fold perform ops w) k = Some t"
  by (induction ops arbitrary: w) (simp_all add: perform_keeps)

section \<open>The handshake\<close>

lemma verify_webhook_match:
  "verify_webhook env (Some ''subscribe'') (Some (VERIFY_TOKEN env)) challenge = Ret challenge"
  by (simp add: verify_webhook_def)

lemma verify_webhook_mismatch:
  "\<not> (mode = Some ''subscribe'' \<and> token = Some (VERIFY_TOKEN env)) \<Longrightarrow>
   verify_webhook env mode token challenge = RetStatus ''Forbidden'' 403"
  by (simp add: verify_webhook_def)

text \<open>
  C4, as amended. For every mode and token, present or absent, and every challenge \<open>c\<close>
  that is present in the query: the answer is status 200 with body exactly \<open>c\<close> if and
  only if the mode is \<open>subscribe\<close> and the token is the configured verify token; on any
  mismatch the status is 403, whatever the challenge is (present or not).
\<close>

theorem handshake_iff:
  "((http_status (verify_webhook env mode token (Some c)) = 200
      \<and> http_body (verify_webhook env mode token (Some c)) = Some c)
     \<longleftrightarrow> (mode = Some ''subscribe'' \<and> token = Some (VERIFY_TOKEN env)))
   \<and> (\<not> (mode = Some ''subscribe'' \<and> token = Some (VERIFY_TOKEN env))
        \<longrightarrow> http_status (verify_webhook env mode token challenge) = 403)"
  by (simp add: verify_webhook_def)

theorem handshake_iff_witness:
  "http_status (verify_webhook Map.empty (Some ''subscribe'') (Some ''12345'') (Some ''abc'')) = 200
   \<and> http_body (verify_webhook Map.empty (Some ''subscribe'') (Some ''12345'') (Some ''abc'')) = Some ''abc''
   \<and> http_status (verify_webhook Map.empty (Some ''subscribe'') (Some ''54321'') (Some ''abc'')) = 403
   \<and> http_status (verify_webhook Map.empty None None None) = 403"
  using handshake_iff [of Map.empty "Some ''subscribe''" "Some ''12345''" "''abc''" None]
    handshake_iff [of Map.empty "Some ''subscribe''" "Some ''54321''" "''abc''" "Some ''abc''"]
    handshake_iff [of Map.empty None None "''abc''" None]
  by (simp add: VERIFY_TOKEN_def)

text \<open>
  C4 as stated, over every triple of parameters, fails where the query has no
  \<open>hub.challenge\<close>: with the mode \<open>subscribe\<close> and the configured token (here the
  default \<open>12345\<close>) the handler returns \<open>None\<close>, which is no response of status 200.
\<close>

theorem handshake_without_challenge:
  "Some ''12345'' = Some (VERIFY_TOKEN Map.empty)
   \<and> verify_webhook Map.empty (Some ''subscribe'') (Some ''12345'') None = Ret None
   \<and> http_status (verify_webhook Map.empty (Some ''subscribe'') (Some ''12345'') None) = 500"
  by (simp add: verify_webhook_def VERIFY_TOKEN_def)

section \<open>The Conversation Directory\<close>

lemma get_or_create_thread_created:
  "py_hash x = Inr k \<Longrightarrow> threads w k = None \<Longrightarrow>
   remote w = Answered (Some thread_data) # rest \<Longrightarrow> py_getitem thread_data ''id'' = Inr h \<Longrightarrow>
   get_or_create_thread x w =
     (Inr h, w\<lparr>threads := (threads w)(k \<mapsto> h), sent := sent w @ [CreateThread], remote := rest\<rparr>)"
  by (simp add: get_or_create_thread_def http_client_def and_then_def)

lemma get_or_create_thread_returns_answer:
  "py_hash x = Inr k \<Longrightarrow> threads w k = None \<Longrightarrow> fst (get_or_create_thread x w) = Inr h \<Longrightarrow>
   \<exists>thread_data rest. remote w = Answered (Some thread_data) # rest
      \<and> py_getitem thread_data ''id'' = Inr h"
proof -
  assume a: "py_hash x = Inr k" "threads w k = None" "fst (get_or_create_thread x w) = Inr h"
  show ?thesis
  proof (cases "remote w")
    case Nil
    then show ?thesis
      using a by (simp add: get_or_create_thread_def http_client_def and_then_def)
  next
    case (Cons r rest)
    show ?thesis
    proof (cases r)
      case Refused
      then show ?thesis
        using a Cons by (simp add: get_or_create_thread_def http_client_def and_then_def)
    next
      case (Answered body)
      show ?thesis
      proof (cases body)
        case None
        then show ?thesis
          using a Cons Answered
          by (simp add: get_or_create_thread_def http_client_def and_then_def)
      next
        case (Some thread_data)
        then have "py_getitem thread_data ''id'' = Inr h"
          using a Cons Answered
          by (simp add: get_or_create_thread_def http_client_def and_then_def split: sum.splits)
        then show ?thesis
          using Cons Answered Some by simp
      qed
    qed
  qed
qed

text \<open>
  C1. For every hashable user id (every string is one) that is not in \<open>threads\<close>:
  \<open>get_or_create_thread\<close> issues exactly one request, the create call. When the answer
  to that call is a JSON body with the handle \<open>h\<close> under \<open>id\<close>, the call returns \<open>h\<close> and
  its only effects are that request and the entry of \<open>h\<close> under the user id; a handle
  is returned in no other case. After any further sequence of operations of the program
  a call for the same id returns the same \<open>h\<close> and leaves the state as it is (no request
  at all). No sequence of operations changes or removes an entry of \<open>threads\<close>.
\<close>

theorem resolve_creates_once:
  "(py_hash user_id = Inr k \<and> threads w k = None \<longrightarrow>
      sent (snd (get_or_create_thread user_id w)) = sent w @ [CreateThread])
   \<and> (py_hash user_id = Inr k \<and> threads w k = None
        \<and> remote w = Answered (Some thread_data) # rest
        \<and> py_getitem thread_data ''id'' = Inr h \<longrightarrow>
      get_or_create_thread user_id w =
        (Inr h, w\<lparr>threads := (threads w)(k \<mapsto> h), sent := sent w @ [CreateThread],
                  remote := rest\<rparr>)
      \<and> (\<forall>ops. threads (fold perform ops (snd (get_or_create_thread user_id w))) k = Some h
         \<and> get_or_create_thread user_id (fold perform ops (snd (get_or_create_thread user_id w)))
             = (Inr h, fold perform ops (snd (get_or_create_thread user_id w)))))
   \<and> (py_hash user_id = Inr k \<and> threads w k = None
        \<and> fst (get_or_create_thread user_id w) = Inr h' \<longrightarrow>
      (\<exists>answer later. remote w = Answered (Some answer) # later
         \<and> py_getitem answer ''id'' = Inr h'))
   \<and> (threads w k' = Some t \<longrightarrow> threads (fold perform ops' w) k' = Some t)"
proof (intro conjI impI allI)
  assume "py_hash user_id = Inr k \<and> threads w k = None"
  then show "sent (snd (get_or_create_thread user_id w)) = sent w @ [CreateThread]"
    by (simp add: get_or_create_thread_miss_sent)
next
  assume a: "py_hash user_id = Inr k \<and> threads w k = None
        \<and> remote w = Answered (Some thread_data) # rest
        \<and> py_getitem thread_data ''id'' = Inr h"
  then show "get_or_create_thread user_id w =
        (Inr h, w\<lparr>threads := (threads w)(k \<mapsto> h), sent := sent w @ [CreateThread],
                  remote := rest\<rparr>)"
    by (simp add: get_or_create_thread_created)
next
  fix ops
  assume a: "py_hash user_id = Inr k \<and> threads w k = None
        \<and> remote w = Answered (Some thread_data) # rest
        \<and> py_getitem thread_data ''id'' = Inr h"
  then have "get_or_create_thread user_id w =
        (Inr h, w\<lparr>threads := (threads w)(k \<mapsto> h), sent := sent w @ [CreateThread],
                  remote := rest\<rparr>)"
    by (simp add: get_or_create_thread_created)
  then have "threads (snd (get_or_create_thread user_id w)) k = Some h"
    by simp
  then show s: "threads (fold perform ops (snd (get_or_create_thread user_id w))) k = Some h"
    by (rule fold_perform_keeps)
  show "get_or_create_thread user_id (fold perform ops (snd (get_or_create_thread user_id w)))
      = (Inr h, fold perform ops (snd (get_or_create_thread user_id w)))"
    using a s by (simp add: get_or_create_thread_hit)
next
  assume "py_hash user_id = Inr k \<and> threads w k = None
        \<and> fst (get_or_create_thread user_id w) = Inr h'"
  then show "\<exists>answer later. remote w = Answered (Some answer) # later
         \<and> py_getitem answer ''id'' = Inr h'"
    using get_or_create_thread_returns_answer [of user_id k w h'] by simp
next
  assume "threads w k' = Some t"
  then show "threads (fold perform ops' w) k' = Some t"
    by (rule fold_perform_keeps)
qed

theorem resolve_creates_once_witness:
  "threads w_fresh (KStr ''111'') = None
   \<and> get_or_create_thread (JStr ''111'') w_fresh =
       (Inr (JStr ''thread_1''),
        \<lparr>threads = [KStr ''111'' \<mapsto> JStr ''thread_1''], sent = [CreateThread],
         remote = [Refused]\<rparr>)
   \<and> get_or_create_thread (JStr ''111'')
        (fold perform [Append (JStr ''thread_1'') (JStr ''Hello'')]
          (snd (get_or_create_thread (JStr ''111'') w_fresh)))
      = (Inr (JStr ''thread_1''),
         fold perform [Append (JStr ''thread_1'') (JStr ''Hello'')]
          (snd (get_or_create_thread (JStr ''111'') w_fresh)))"
proof -
  have h1: "py_hash (JStr ''111'') = Inr (KStr ''111'')"
    by simp
  have h2: "threads w_fresh (KStr ''111'') = None"
    by (simp add: w_fresh_def)
  have h3: "remote w_fresh = Answered (Some (JObj [(''id'', JStr ''thread_1'')])) # [Refused]"
    by (simp add: w_fresh_def thread_created_def)
  have h4: "py_getitem (JObj [(''id'', JStr ''thread_1'')]) ''id'' = Inr (JStr ''thread_1'')"
    by simp
  note inst = resolve_creates_once [where user_id = "JStr ''111''" and k = "KStr ''111''"
      and w = w_fresh and thread_data = "JObj [(''id'', JStr ''thread_1'')]"
      and rest = "[Refused]" and h = "JStr ''thread_1''"]
  have a: "get_or_create_thread (JStr ''111'') w_fresh =
      (Inr (JStr ''thread_1''),
       w_fresh\<lparr>threads := (threads w_fresh)(KStr ''111'' \<mapsto> JStr ''thread_1''),
         sent := sent w_fresh @ [CreateThread], remote := [Refused]\<rparr>)"
    using inst h1 h2 h3 h4 by blast
  have b: "get_or_create_thread (JStr ''111'')
        (fold perform [Append (JStr ''thread_1'') (JStr ''Hello'')]
          (snd (get_or_create_thread (JStr ''111'') w_fresh)))
      = (Inr (JStr ''thread_1''),
         fold perform [Append (JStr ''thread_1'') (JStr ''Hello'')]
          (snd (get_or_create_thread (JStr ''111'') w_fresh)))"
    using inst h1 h2 h3 h4 by blast
  have a': "get_or_create_thread (JStr ''111'') w_fresh =
       (Inr (JStr ''thread_1''),
        \<lparr>threads = [KStr ''111'' \<mapsto> JStr ''thread_1''], sent = [CreateThread],
         remote = [Refused]\<rparr>)"
    unfolding a by (simp add: w_fresh_def)
  show ?thesis
    using h2 a' b by blast
qed

text \<open>
  C6. When the user id is hashable and not in \<open>threads\<close>, and the create call fails
  (the client or \<open>raise_for_status\<close> raises, the body is not JSON, or it has no \<open>id\<close>),
  \<open>get_or_create_thread\<close> raises that exception to its caller, \<open>threads\<close> is left as it
  was, and a second call for the same user id issues the create call again.
\<close>

theorem create_failure_propagates:
  assumes "py_hash user_id = Inr k" and "threads w k = None"
    and "and_then (response_json (fst (http_client CreateThread w)))
           (\<lambda>thread_data. py_getitem thread_data ''id'') = Inl e"
  shows "fst (get_or_create_thread user_id w) = Inl e
    \<and> threads (snd (get_or_create_thread user_id w)) = threads w
    \<and> sent (snd (get_or_create_thread user_id w)) = sent w @ [CreateThread]
    \<and> sent (snd (get_or_create_thread user_id (snd (get_or_create_thread user_id w))))
        = sent w @ [CreateThread, CreateThread]"
proof -
  obtain r w1 where h: "http_client CreateThread w = (r, w1)"
    by (cases "http_client CreateThread w")
  have f: "get_or_create_thread user_id w = (Inl e, w1)"
    using assms h by (simp add: get_or_create_thread_def)
  have t: "threads w1 = threads w" and s: "sent w1 = sent w @ [CreateThread]"
    using http_client_eq [OF h] by simp_all
  have "sent (snd (get_or_create_thread user_id w1)) = sent w1 @ [CreateThread]"
    using assms(1,2) t by (simp add: get_or_create_thread_miss_sent)
  then show ?thesis
    using f t s by simp
qed

theorem create_failure_propagates_witness:
  "fst (get_or_create_thread (JStr ''111'') w_down) = Inl HTTPError
    \<and> threads (snd (get_or_create_thread (JStr ''111'') w_down)) = threads w_down
    \<and> sent (snd (get_or_create_thread (JStr ''111'') w_down)) = [CreateThread]
    \<and> sent (snd (get_or_create_thread (JStr ''111'') (snd (get_or_create_thread (JStr ''111'') w_down))))
        = [CreateThread, CreateThread]"
proof -
  have h1: "py_hash (JStr ''111'') = Inr (KStr ''111'')"
    by simp
  have h2: "threads w_down (KStr ''111'') = None"
    by (simp add: w_down_def)
  have h3: "and_then (response_json (fst (http_client CreateThread w_down)))
           (\<lambda>thread_data. py_getitem thread_data ''id'') = Inl HTTPError"
    by (simp add: w_down_def http_client_def and_then_def)
  have h4: "sent w_down = []"
    by (simp add: w_down_def)
  show ?thesis
    using create_failure_propagates [OF h1 h2 h3] h4 by simp
qed

section \<open>The polling loop\<close>

lemma poll_sent:
  "\<exists>new. sent (snd (poll n th r w)) = sent w @ new \<and> length (filter is_status_check new) \<le> n"
proof (induction n arbitrary: w)
  case 0
  show ?case by simp
next
  case (Suc n)
  obtain r1 w1 where h: "http_client (GetRun th r) w = (r1, w1)"
    by (cases "http_client (GetRun th r) w")
  have s: "sent w1 = sent w @ [GetRun th r]"
    using http_client_eq [OF h] by simp
  obtain new where n: "sent (snd (poll n th r w1)) = sent w1 @ new"
      "length (filter is_status_check new) \<le> n"
    using Suc [of w1] by blast
  have f: "sent (snd (fetch_reply th w1)) = sent w1 @ [ListMessages th]"
    by (auto simp: fetch_reply_def http_client_def split: list.split sum.split)
  show ?case
  proof (cases "and_then (response_json r1) (\<lambda>b. py_getitem b ''status'')")
    case (Inl e)
    then have "sent (snd (poll (Suc n) th r w)) = sent w @ [GetRun th r]"
      using h s by simp
    then show ?thesis
      by (intro exI [of _ "[GetRun th r]"]) simp
  next
    case (Inr status)
    consider (completed) "py_eq status (JStr ''completed'')"
      | (failed) "\<not> py_eq status (JStr ''completed'')"
          "py_eq status (JStr ''failed'') \<or> py_eq status (JStr ''cancelled'')
            \<or> py_eq status (JStr ''expired'')"
      | (pending) "\<not> py_eq status (JStr ''completed'')"
          "\<not> (py_eq status (JStr ''failed'') \<or> py_eq status (JStr ''cancelled'')
            \<or> py_eq status (JStr ''expired''))"
      by blast
    then show ?thesis
    proof cases
      case completed
      then have "sent (snd (poll (Suc n) th r w)) = sent w @ [GetRun th r, ListMessages th]"
        using h s f Inr by simp
      then show ?thesis
        by (intro exI [of _ "[GetRun th r, ListMessages th]"]) simp
    next
      case failed
      then have "sent (snd (poll (Suc n) th r w)) = sent w @ [GetRun th r]"
        using h s Inr by simp
      then show ?thesis
        by (intro exI [of _ "[GetRun th r]"]) simp
    next
      case pending
      then have "sent (snd (poll (Suc n) th r w)) = sent w @ (GetRun th r # new)"
        using h s Inr n(1) by simp
      then show ?thesis
        using n(2) by (intro exI [of _ "GetRun th r # new"]) simp
    qed
  qed
qed

lemma run_assistant_sent:
  "\<exists>new. sent (snd (run_assistant th w)) = sent w @ new
     \<and> length (filter is_status_check new) \<le> max_attempts"
proof -
  obtain r1 w1 where h: "http_client (StartRun th) w = (r1, w1)"
    by (cases "http_client (StartRun th) w")
  have s: "sent w1 = sent w @ [StartRun th]"
    using http_client_eq [OF h] by simp
  show ?thesis
  proof (cases "and_then (response_json r1) (\<lambda>b. py_getitem b ''id'')")
    case (Inl e)
    then have "sent (snd (run_assistant th w)) = sent w @ [StartRun th]"
      using h s by (simp add: run_assistant_snd run_assistant_body_def)
    then show ?thesis
      by (intro exI [of _ "[StartRun th]"]) simp
  next
    case (Inr run_id)
    obtain new where n: "sent (snd (poll max_attempts th run_id w1)) = sent w1 @ new"
      "length (filter is_status_check new) \<le> max_attempts"
      using poll_sent [of max_attempts th run_id w1] by blast
    have "sent (snd (run_assistant th w)) = sent w @ (StartRun th # new)"
      using h s Inr n(1) by (simp add: run_assistant_snd run_assistant_body_def)
    then show ?thesis
      using n(2) by (intro exI [of _ "StartRun th # new"]) simp
  qed
qed

lemma world_same: "w\<lparr>sent := sent w, remote := remote w\<rparr> = w"
  by simp

lemma poll_pending:
  "remote w = map (\<lambda>b. Answered (Some b)) bs @ rest \<Longrightarrow> \<forall>b\<in>set bs. pending b \<Longrightarrow>
   poll (length bs + m) th r w =
   poll m th r (w\<lparr>sent := sent w @ replicate (length bs) (GetRun th r), remote := rest\<rparr>)"
proof (induction bs arbitrary: w)
  case Nil
  then have "w\<lparr>remote := rest\<rparr> = w"
    by (cases w) simp
  then show ?case by simp
next
  case (Cons b bs)
  let ?w1 = "w\<lparr>sent := sent w @ [GetRun th r], remote := map (\<lambda>b. Answered (Some b)) bs @ rest\<rparr>"
  have h: "http_client (GetRun th r) w = (Answered (Some b), ?w1)"
    using Cons.prems(1) by (simp add: http_client_def)
  obtain status where st: "py_getitem b ''status'' = Inr status"
    "status \<noteq> JStr ''completed''" "status \<noteq> JStr ''failed''"
    "status \<noteq> JStr ''cancelled''" "status \<noteq> JStr ''expired''"
    using Cons.prems(2) by (auto simp: pending_def split: sum.splits)
  have "poll (length (b # bs) + m) th r w = poll (length bs + m) th r ?w1"
    using h st by (simp add: and_then_def py_eq_JStr)
  also have "\<dots> = poll m th r (?w1\<lparr>sent := sent ?w1 @ replicate (length bs) (GetRun th r), remote := rest\<rparr>)"
    using Cons.prems(2) by (intro Cons.IH) simp_all
  finally show ?case
    by (simp add: replicate_append_same)
qed

text \<open>
  C2. Whatever the remote ends answer, \<open>run_assistant\<close> issues at most 10 status checks.
  When the run starts and the first 10 status answers all leave it going (\<open>running\<close>,
  or any status that is none of \<open>completed\<close>, \<open>failed\<close>, \<open>cancelled\<close>, \<open>expired\<close>), it
  issues the start call and exactly 10 status checks, leaves every later answer of the
  remote end unread (no 11th check), and returns \<open>None\<close>.
\<close>

theorem status_checks_bounded:
  "(\<exists>new. sent (snd (run_assistant th w)) = sent w @ new
      \<and> length (filter is_status_check new) \<le> 10)
   \<and> (py_getitem started ''id'' = Inr run_id \<and> length bs = 10 \<and> (\<forall>b\<in>set bs. pending b)
        \<and> remote w = Answered (Some started) # map (\<lambda>b. Answered (Some b)) bs @ rest
      \<longrightarrow> run_assistant th w =
            (JNull, w\<lparr>sent := sent w @ StartRun th # replicate 10 (GetRun th run_id),
                      remote := rest\<rparr>))"
proof (intro conjI impI)
  show "\<exists>new. sent (snd (run_assistant th w)) = sent w @ new
      \<and> length (filter is_status_check new) \<le> 10"
    using run_assistant_sent [of th w] by (simp add: max_attempts_def)
next
  assume a: "py_getitem started ''id'' = Inr run_id \<and> length bs = 10 \<and> (\<forall>b\<in>set bs. pending b)
        \<and> remote w = Answered (Some started) # map (\<lambda>b. Answered (Some b)) bs @ rest"
  let ?w1 = "w\<lparr>sent := sent w @ [StartRun th], remote := map (\<lambda>b. Answered (Some b)) bs @ rest\<rparr>"
  have h: "http_client (StartRun th) w = (Answered (Some started), ?w1)"
    using a by (simp add: http_client_def)
  have "poll (length bs + 0) th run_id ?w1 =
      poll 0 th run_id (?w1\<lparr>sent := sent ?w1 @ replicate (length bs) (GetRun th run_id), remote := rest\<rparr>)"
    using a by (intro poll_pending) simp_all
  then have "poll max_attempts th run_id ?w1 =
      (Inr JNull, w\<lparr>sent := sent w @ StartRun th # replicate 10 (GetRun th run_id), remote := rest\<rparr>)"
    using a by (simp add: max_attempts_def)
  then show "run_assistant th w =
            (JNull, w\<lparr>sent := sent w @ StartRun th # replicate 10 (GetRun th run_id),
                      remote := rest\<rparr>)"
    using a h by (simp add: run_assistant_def run_assistant_body_def and_then_def)
qed

theorem status_checks_bounded_witness:
  "run_assistant (JStr ''thread_1'') w_slow =
     (JNull, \<lparr>threads = Map.empty,
        sent = StartRun (JStr ''thread_1'') # replicate 10 (GetRun (JStr ''thread_1'') (JStr ''run_1'')),
        remote = [Answered (Some running)]\<rparr>)"
proof -
  have h1: "py_getitem run_started ''id'' = Inr (JStr ''run_1'')"
    by (simp add: run_started_def)
  have h2: "length (replicate 10 running) = 10"
    by simp
  have h3: "\<forall>b\<in>set (replicate 10 running). pending b"
    by (simp add: pending_def running_def)
  have h4: "remote w_slow = Answered (Some run_started)
      # map (\<lambda>b. Answered (Some b)) (replicate 10 running) @ [Answered (Some running)]"
    by (simp add: w_slow_def)
  have "run_assistant (JStr ''thread_1'') w_slow =
      (JNull, w_slow\<lparr>sent := sent w_slow @ StartRun (JStr ''thread_1'')
            # replicate 10 (GetRun (JStr ''thread_1'') (JStr ''run_1'')),
          remote := [Answered (Some running)]\<rparr>)"
    using status_checks_bounded [of "JStr ''thread_1''" w_slow run_started "JStr ''run_1''"
        "replicate 10 running" "[Answered (Some running)]"] h1 h2 h3 h4
    by blast
  then show ?thesis
    by (simp add: w_slow_def)
qed

lemma run_assistant_third_check:
  assumes "py_getitem started ''id'' = Inr run_id"
    and "py_getitem b1 ''status'' = Inr (JStr ''running'')"
    and "py_getitem b2 ''status'' = Inr (JStr ''running'')"
    and "py_getitem b3 ''status'' = Inr (JStr ''completed'')"
    and "py_getitem listing ''data'' = Inr messages"
    and "remote w = map (\<lambda>b. Answered (Some b)) [started, b1, b2, b3, listing] @ rest"
  shows "run_assistant th w =
      ((if truthy messages then (case first_text messages of Inl e \<Rightarrow> JNull | Inr v \<Rightarrow> v)
        else JNull),
       w\<lparr>sent := sent w @ [StartRun th, GetRun th run_id, GetRun th run_id,
                        GetRun th run_id, ListMessages th],
         remote := rest\<rparr>)"
  using assms
  by (simp add: run_assistant_def run_assistant_body_def max_attempts_def eval_nat_numeral
      http_client_def and_then_def py_eq_JStr fetch_reply_def split: sum.split)

text \<open>
  C3. When the run starts and the status answers are \<open>running\<close>, \<open>running\<close>,
  \<open>completed\<close>, \<open>run_assistant\<close> issues exactly three status checks and then reads the
  message list once. With a non-empty list whose first item is an object holding the
  text \<open>reply\<close> at \<open>content[0].text.value\<close>, it returns \<open>reply\<close>; with an empty list it
  returns \<open>None\<close>. The answers are given as the JSON objects the remote end sends.
\<close>

theorem completes_on_third_check:
  assumes "map_of started ''id'' = Some run_id"
    and "map_of b1 ''status'' = Some (JStr ''running'')"
    and "map_of b2 ''status'' = Some (JStr ''running'')"
    and "map_of b3 ''status'' = Some (JStr ''completed'')"
    and "map_of listing ''data'' = Some messages"
    and "remote w = map (\<lambda>kvs. Answered (Some (JObj kvs))) [started, b1, b2, b3, listing] @ rest"
  shows "(messages = JArr (JObj m # ms)
          \<and> map_of m ''content'' = Some (JArr (JObj part # parts))
          \<and> map_of part ''text'' = Some (JObj t)
          \<and> map_of t ''value'' = Some reply \<longrightarrow>
           run_assistant th w =
             (reply, w\<lparr>sent := sent w @ [StartRun th, GetRun th run_id, GetRun th run_id,
                        GetRun th run_id, ListMessages th],
                      remote := rest\<rparr>))
       \<and> (messages = JArr [] \<longrightarrow>
           run_assistant th w =
             (JNull, w\<lparr>sent := sent w @ [StartRun th, GetRun th run_id, GetRun th run_id,
                        GetRun th run_id, ListMessages th],
                      remote := rest\<rparr>))"
proof -
  have g: "py_getitem (JObj started) ''id'' = Inr run_id"
    "py_getitem (JObj b1) ''status'' = Inr (JStr ''running'')"
    "py_getitem (JObj b2) ''status'' = Inr (JStr ''running'')"
    "py_getitem (JObj b3) ''status'' = Inr (JStr ''completed'')"
    "py_getitem (JObj listing) ''data'' = Inr messages"
    using assms(1-5) by simp_all
  have r: "remote w = map (\<lambda>b. Answered (Some b))
      [JObj started, JObj b1, JObj b2, JObj b3, JObj listing] @ rest"
    using assms(6) by simp
  note run = run_assistant_third_check [OF g r, of th]
  show ?thesis
  proof (intro conjI impI)
    assume a: "messages = JArr (JObj m # ms)
          \<and> map_of m ''content'' = Some (JArr (JObj part # parts))
          \<and> map_of part ''text'' = Some (JObj t)
          \<and> map_of t ''value'' = Some reply"
    then have "first_text messages = Inr reply"
      by (simp add: first_text_def item_text_def and_then_def)
    moreover have "truthy messages"
      using a by simp
    ultimately show "run_assistant th w =
             (reply, w\<lparr>sent := sent w @ [StartRun th, GetRun th run_id, GetRun th run_id,
                        GetRun th run_id, ListMessages th],
                      remote := rest\<rparr>)"
      using run by simp
  next
    assume "messages = JArr []"
    then show "run_assistant th w =
             (JNull, w\<lparr>sent := sent w @ [StartRun th, GetRun th run_id, GetRun th run_id,
                        GetRun th run_id, ListMessages th],
                      remote := rest\<rparr>)"
      using run by simp
  qed
qed

theorem completes_on_third_check_witness:
  "run_assistant (JStr ''thread_1'') (w_reply (JArr [reply_item])) =
     (JStr ''Hi there'',
      \<lparr>threads = Map.empty,
       sent = [StartRun (JStr ''thread_1''), GetRun (JStr ''thread_1'') (JStr ''run_1''),
               GetRun (JStr ''thread_1'') (JStr ''run_1''), GetRun (JStr ''thread_1'') (JStr ''run_1''),
               ListMessages (JStr ''thread_1'')],
       remote = []\<rparr>)
   \<and> run_assistant (JStr ''thread_1'') (w_reply (JArr [])) =
     (JNull,
      \<lparr>threads = Map.empty,
       sent = [StartRun (JStr ''thread_1''), GetRun (JStr ''thread_1'') (JStr ''run_1''),
               GetRun (JStr ''thread_1'') (JStr ''run_1''), GetRun (JStr ''thread_1'') (JStr ''run_1''),
               ListMessages (JStr ''thread_1'')],
       remote = []\<rparr>)"
proof -
  have h1: "map_of [(''id'', JStr ''run_1'')] ''id'' = Some (JStr ''run_1'')"
    by simp
  have h2: "map_of [(''status'', JStr ''running'')] ''status'' = Some (JStr ''running'')"
    by simp
  have h3: "map_of [(''status'', JStr ''completed'')] ''status'' = Some (JStr ''completed'')"
    by simp
  have h4: "\<And>ms. map_of [(''data'', ms)] ''data'' = Some ms"
    by simp
  have h5: "\<And>ms. remote (w_reply ms) = map (\<lambda>kvs. Answered (Some (JObj kvs)))
       [[(''id'', JStr ''run_1'')], [(''status'', JStr ''running'')],
        [(''status'', JStr ''running'')], [(''status'', JStr ''completed'')],
        [(''data'', ms)]] @ []"
    by (simp add: w_reply_def run_started_def running_def completed_def)
  note inst = completes_on_third_check [OF h1 h2 h2 h3 h4 h5]
  have a: "run_assistant (JStr ''thread_1'') (w_reply (JArr [reply_item])) =
     (JStr ''Hi there'',
      (w_reply (JArr [reply_item]))\<lparr>sent := sent (w_reply (JArr [reply_item])) @
          [StartRun (JStr ''thread_1''), GetRun (JStr ''thread_1'') (JStr ''run_1''),
           GetRun (JStr ''thread_1'') (JStr ''run_1''), GetRun (JStr ''thread_1'') (JStr ''run_1''),
           ListMessages (JStr ''thread_1'')],
        remote := []\<rparr>)"
    by (rule conjunct1 [OF inst [where
            m = "[(''content'', JArr [JObj [(''text'', JObj [(''value'', JStr ''Hi there'')])]])]"
            and ms = "[]" and part = "[(''text'', JObj [(''value'', JStr ''Hi there'')])]"
            and parts = "[]" and t = "[(''value'', JStr ''Hi there'')]"], THEN mp])
       (simp add: reply_item_def)
  have b: "run_assistant (JStr ''thread_1'') (w_reply (JArr [])) =
     (JNull,
      (w_reply (JArr []))\<lparr>sent := sent (w_reply (JArr [])) @
          [StartRun (JStr ''thread_1''), GetRun (JStr ''thread_1'') (JStr ''run_1''),
           GetRun (JStr ''thread_1'') (JStr ''run_1''), GetRun (JStr ''thread_1'') (JStr ''run_1''),
           ListMessages (JStr ''thread_1'')],
        remote := []\<rparr>)"
    by (rule conjunct2 [OF inst, THEN mp]) simp
  show ?thesis
    using a b by (simp add: w_reply_def)
qed

section \<open>The orchestrator\<close>

text \<open>
  C8. For a message entry without the field \<open>from\<close>, \<open>process_message\<close> leaves the
  state as it is: no lookup or creation of a thread, no append, no run, no reply. The
  same holds whenever the entry gives no sender id that counts as true (a value that is
  not an object, \<open>null\<close>, an empty string).
\<close>

theorem no_sender_no_calls:
  "(map_of kvs ''from'' = None \<longrightarrow> process_message (JObj kvs) contacts w = w)
   \<and> ((\<forall>phone_id. py_get message ''from'' JNull = Inr phone_id \<longrightarrow> \<not> truthy phone_id) \<longrightarrow>
        process_message message contacts w = w)"
  by (auto simp: process_message_def process_message_body_def split: sum.splits)

theorem no_sender_no_calls_witness:
  "process_message (JObj [(''text'', JObj [(''body'', JStr ''Hello'')])]) (JArr []) w_fresh = w_fresh"
  using no_sender_no_calls [of "[(''text'', JObj [(''body'', JStr ''Hello'')])]" "JArr []" w_fresh JNull]
  by simp

text \<open>
  C7. When a message has a sender id, its thread resolves, and
  \<open>add_message_to_thread\<close> returns \<open>False\<close>, \<open>process_message\<close> ends in the state the
  append left: the requests it has issued are the create call (if the thread was new) and
  the append, so no run is started, no status is polled and no reply is sent.
\<close>

theorem append_failure_aborts:
  assumes "py_get message ''from'' JNull = Inr phone_id" and "truthy phone_id"
    and "and_then (py_get message ''text'' (JObj [])) (\<lambda>t. py_get t ''body'' (JStr [])) = Inr message_text"
    and "and_then (py_iter contacts) (find_contact phone_id) = Inr contact_name"
    and "get_or_create_thread phone_id w = (Inr thread_id, w1)"
    and "add_message_to_thread thread_id message_text w1 = (False, w2)"
  shows "process_message message contacts w = w2
    \<and> sent w2 = sent w1 @ [AddMessage thread_id message_text]
    \<and> (\<forall>rq \<in> set (drop (length (sent w)) (sent (process_message message contacts w))).
          rq = CreateThread \<or> rq = AddMessage thread_id message_text)"
proof -
  have p: "process_message message contacts w = w2"
    using assms by (simp add: process_message_def process_message_body_def)
  have s2: "sent w2 = sent w1 @ [AddMessage thread_id message_text]"
    using assms(6)
    by (auto simp: add_message_to_thread_def http_client_def split: list.splits sum.splits)
  have "sent w1 = sent w \<or> sent w1 = sent w @ [CreateThread]"
    using assms(5)
    by (auto simp: get_or_create_thread_def http_client_def
        split: sum.splits option.splits list.splits)
  then show ?thesis
    using p s2 by auto
qed

theorem append_failure_aborts_witness:
  "process_message hello_message (JArr []) w_append_refused =
     \<lparr>threads = [KStr ''111'' \<mapsto> JStr ''thread_1''],
      sent = [CreateThread, AddMessage (JStr ''thread_1'') (JStr ''Hello'')],
      remote = [Answered (Some run_started), Answered (Some completed)]\<rparr>"
proof -
  let ?w1 = "\<lparr>threads = [KStr ''111'' \<mapsto> JStr ''thread_1''], sent = [CreateThread],
      remote = [Refused, Answered (Some run_started), Answered (Some completed)]\<rparr>"
  let ?w2 = "\<lparr>threads = [KStr ''111'' \<mapsto> JStr ''thread_1''],
      sent = [CreateThread, AddMessage (JStr ''thread_1'') (JStr ''Hello'')],
      remote = [Answered (Some run_started), Answered (Some completed)]\<rparr>"
  have h1: "py_get hello_message ''from'' JNull = Inr (JStr ''111'')"
    by (simp add: hello_message_def)
  have h2: "truthy (JStr ''111'')"
    by simp
  have h3: "and_then (py_get hello_message ''text'' (JObj [])) (\<lambda>t. py_get t ''body'' (JStr []))
      = Inr (JStr ''Hello'')"
    by (simp add: hello_message_def and_then_def)
  have h4: "and_then (py_iter (JArr [])) (find_contact (JStr ''111'')) = Inr (JStr ''Unknown'')"
    by (simp add: and_then_def)
  have h5: "get_or_create_thread (JStr ''111'') w_append_refused = (Inr (JStr ''thread_1''), ?w1)"
    by (simp add: w_append_refused_def thread_created_def get_or_create_thread_def
        http_client_def and_then_def)
  have h6: "add_message_to_thread (JStr ''thread_1'') (JStr ''Hello'') ?w1 = (False, ?w2)"
    by (simp add: add_message_to_thread_def http_client_def)
  show ?thesis
    using append_failure_aborts [OF h1 h2 h3 h4 h5 h6] by simp
qed






section \<open>The delivery notification\<close>

lemma handle_webhook_with_ok: "fst (handle_webhook_with pm got w) = RetStatus ''OK'' 200"
  by (auto simp: handle_webhook_with_def handle_webhook_body_def
      split: sum.splits bool.splits prod.splits)

lemma handle_webhook_with_ignored:
  assumes "\<forall>data. got = Inr data \<longrightarrow> \<not> accepted data"
  shows "handle_webhook_with pm got w = (RetStatus ''OK'' 200, w)"
proof (cases got)
  case (Inl e)
  then show ?thesis
    by (simp add: handle_webhook_with_def handle_webhook_body_def)
next
  case (Inr data)
  then have n: "\<not> accepted data"
    using assms by simp
  show ?thesis
  proof (cases data)
    case (JObj kvs)
    show ?thesis
    proof (cases "map_of kvs ''object''")
      case None
      then have "''object'' \<notin> fst ` set kvs"
        by (simp add: map_of_eq_None_iff)
      then show ?thesis
        by (simp add: Inr JObj handle_webhook_with_def handle_webhook_body_def)
    next
      case (Some obj)
      then have "''object'' \<in> fst ` set kvs"
        by (metis map_of_eq_None_iff option.distinct(1))
      moreover have "obj \<noteq> JStr ''whatsapp_business_account''"
        using n JObj Some by simp
      ultimately show ?thesis
        using Some
        by (simp add: Inr JObj handle_webhook_with_def handle_webhook_body_def py_eq_JStr)
    qed
  qed (simp_all add: Inr handle_webhook_with_def handle_webhook_body_def split: bool.split)
qed

text \<open>
  C5. Whatever \<open>request.get_json()\<close> gives (any JSON value, or an exception on a body
  that is not JSON) and whatever happens while it is processed, \<open>handle_webhook\<close> returns
  \<open>'OK', 200\<close>. When the body is not an object whose \<open>object\<close> field is
  \<open>whatsapp_business_account\<close>, the orchestrator is never called (the result is the same
  for every orchestrator put in its place) and the state is unchanged: no request is
  issued.
\<close>

theorem webhook_always_ok:
  "fst (handle_webhook_with pm got w) = RetStatus ''OK'' 200
   \<and> fst (handle_webhook got w) = RetStatus ''OK'' 200
   \<and> ((\<forall>data. got = Inr data \<longrightarrow> \<not> accepted data) \<longrightarrow>
        handle_webhook_with pm got w = (RetStatus ''OK'' 200, w)
        \<and> handle_webhook got w = (RetStatus ''OK'' 200, w))"
  by (simp add: handle_webhook_with_ok handle_webhook_with_ignored handle_webhook_def)

theorem webhook_always_ok_witness:
  "handle_webhook (Inr page_payload) w_fresh = (RetStatus ''OK'' 200, w_fresh)
   \<and> handle_webhook (Inl BadRequest) w_fresh = (RetStatus ''OK'' 200, w_fresh)
   \<and> handle_webhook (Inr (JArr [JStr ''object''])) w_fresh = (RetStatus ''OK'' 200, w_fresh)"
proof -
  have h1: "\<forall>data. (Inr page_payload :: pyerr + json) = Inr data \<longrightarrow> \<not> accepted data"
    by (simp add: page_payload_def)
  have h2: "\<forall>data. (Inl BadRequest :: pyerr + json) = Inr data \<longrightarrow> \<not> accepted data"
    by simp
  have h3: "\<forall>data. (Inr (JArr [JStr ''object'']) :: pyerr + json) = Inr data \<longrightarrow> \<not> accepted data"
    by simp
  show ?thesis
    using webhook_always_ok [of process_message "Inr page_payload" w_fresh]
      webhook_always_ok [of process_message "Inl BadRequest" w_fresh]
      webhook_always_ok [of process_message "Inr (JArr [JStr ''object''])" w_fresh]
      h1 h2 h3
    by blast
qed

lemma for_each_total:
  "(\<And>x w. x \<in> set xs \<Longrightarrow> f x w = (Inr (), g x w)) \<Longrightarrow>
   for_each f xs w = (Inr (), fold g xs w)"
  by (induction xs arbitrary: w) simp_all

lemma fold_concat_map:
  "fold f (concat (map d xs)) w = fold (\<lambda>x. fold f (d x)) xs w"
  by (induction xs arbitrary: w) simp_all

lemma hand_over_object:
  "is_object val \<Longrightarrow>
   hand_over pm val m w = (Inr (), pm m (member_or ''contacts'' (JArr []) val) w)"
  by (cases val) (simp_all add: hand_over_def)

lemma handle_change_shaped:
  assumes "change_shaped change"
  shows "handle_change pm change w
       = (Inr (), fold (\<lambda>(m, c). pm m c) (deliveries_of_change change) w)"
proof -
  obtain kvs where c: "change = JObj kvs"
    using assms by (cases change) (simp_all add: change_shaped_def)
  have f: "py_get change ''field'' JNull = Inr (member_or ''field'' JNull change)"
    by (simp add: c)
  show ?thesis
  proof (cases "messages_change change")
    case False
    then show ?thesis
      using f by (simp add: handle_change_def deliveries_of_change_def messages_change_def py_eq_JStr)
  next
    case True
    let ?val = "member_or ''value'' (JObj []) change"
    obtain vs where v: "?val = JObj vs"
      using assms True by (cases ?val) (simp_all add: change_shaped_def)
    have g: "py_get change ''value'' (JObj []) = Inr ?val"
      by (simp add: c)
    have s: "py_contains ''statuses'' ?val = Inr (carries_statuses ?val)"
      by (simp add: v)
    show ?thesis
    proof (cases "carries_statuses ?val")
      case yes: True
      then show ?thesis
        using True f g s
        by (simp add: handle_change_def deliveries_of_change_def messages_change_def py_eq_JStr)
    next
      case False
      obtain ms where m: "member_or ''messages'' (JArr []) ?val = JArr ms"
        using assms True False
        by (cases "member_or ''messages'' (JArr []) ?val") (simp_all add: change_shaped_def)
      have i: "and_then (py_get ?val ''messages'' (JArr [])) py_iter = Inr ms"
        using m by (simp add: v and_then_def)
      have l: "for_each (hand_over pm ?val) ms w
          = (Inr (), fold (\<lambda>m. pm m (member_or ''contacts'' (JArr []) ?val)) ms w)"
        by (rule for_each_total) (simp add: hand_over_object v)
      have d: "deliveries_of_change change
          = map (\<lambda>m. (m, member_or ''contacts'' (JArr []) ?val)) ms"
        using True False m by (simp add: deliveries_of_change_def)
      have "handle_change pm change w = for_each (hand_over pm ?val) ms w"
        using True False f g s i
        by (simp add: handle_change_def messages_change_def py_eq_JStr)
      then show ?thesis
        by (simp add: l d fold_map comp_def)
    qed
  qed
qed

lemma handle_entry_shaped:
  assumes "entry_shaped entry"
  shows "handle_entry pm entry w
       = (Inr (), fold (\<lambda>(m, c). pm m c) (deliveries_of_entry entry) w)"
proof -
  obtain kvs where e: "entry = JObj kvs"
    using assms by (cases entry) (simp_all add: entry_shaped_def)
  obtain cs where c: "member_or ''changes'' (JArr []) entry = JArr cs"
    using assms by (cases "member_or ''changes'' (JArr []) entry") (simp_all add: entry_shaped_def)
  have a: "\<forall>ch\<in>set cs. change_shaped ch"
    using assms c by (simp add: entry_shaped_def list_all_iff)
  have i: "and_then (py_get entry ''changes'' (JArr [])) py_iter = Inr cs"
    using c by (simp add: e and_then_def)
  have "for_each (handle_change pm) cs w
      = (Inr (), fold (\<lambda>ch. fold (\<lambda>(m, c). pm m c) (deliveries_of_change ch)) cs w)"
    by (rule for_each_total) (simp add: handle_change_shaped a)
  then show ?thesis
    using i c by (simp add: handle_entry_def deliveries_of_entry_def fold_concat_map)
qed

text \<open>
  C9, as amended. For an accepted notification that has the shape of the provider's
  schema (\<open>entry\<close> and \<open>changes\<close> arrays of objects, the value of a change about messages
  an object, its \<open>messages\<close> an array unless it carries \<open>statuses\<close>), the
  handler answers \<open>'OK', 200\<close> after calling the orchestrator once for each message
  entry, in the order of the document, each with the contacts of its change: all the
  entries are walked, and in each all the changes whose field is \<open>messages\<close>; a change
  whose value carries \<open>statuses\<close> is skipped, and every message of the other values is
  handed over. This holds for every orchestrator put in the place of \<open>process_message\<close>,
  and so for \<open>process_message\<close>.
\<close>

theorem messages_handed_over:
  assumes "accepted data" and "notification_shaped data"
  shows "handle_webhook_with pm (Inr data) w
       = (RetStatus ''OK'' 200, fold (\<lambda>(m, c). pm m c) (deliveries data) w)
    \<and> handle_webhook (Inr data) w
       = (RetStatus ''OK'' 200, fold (\<lambda>(m, c). process_message m c) (deliveries data) w)"
proof -
  have g: "\<And>pm. handle_webhook_with pm (Inr data) w
       = (RetStatus ''OK'' 200, fold (\<lambda>(m, c). pm m c) (deliveries data) w)"
  proof -
    fix pm
    obtain kvs where d: "data = JObj kvs"
      using assms(1) by (cases data) simp_all
    have o: "map_of kvs ''object'' = Some (JStr ''whatsapp_business_account'')"
      using assms(1) d by simp
    then have k: "''object'' \<in> fst ` set kvs"
      by (metis map_of_eq_None_iff option.distinct(1))
    have t: "kvs \<noteq> []"
      using o by auto
    obtain es where e: "member_or ''entry'' (JArr []) data = JArr es"
      using assms(2)
      by (cases "member_or ''entry'' (JArr []) data") (simp_all add: notification_shaped_def)
    have a: "\<forall>en\<in>set es. entry_shaped en"
      using assms(2) e by (simp add: notification_shaped_def list_all_iff)
    have i: "and_then (py_get data ''entry'' (JArr [])) py_iter = Inr es"
      using e by (simp add: d and_then_def)
    have l: "for_each (handle_entry pm) es w
        = (Inr (), fold (\<lambda>en. fold (\<lambda>(m, c). pm m c) (deliveries_of_entry en)) es w)"
      by (rule for_each_total) (simp add: handle_entry_shaped a)
    have "handle_webhook_body pm (Inr data) w
        = (Inr (RetStatus ''OK'' 200), fold (\<lambda>en. fold (\<lambda>(m, c). pm m c) (deliveries_of_entry en)) es w)"
      using i l o k t unfolding handle_webhook_body_def
      by (simp add: d py_eq_JStr)
    then show "handle_webhook_with pm (Inr data) w
       = (RetStatus ''OK'' 200, fold (\<lambda>(m, c). pm m c) (deliveries data) w)"
      using e by (simp add: handle_webhook_with_def deliveries_def fold_concat_map)
  qed
  show ?thesis
    using g [of pm] g [of process_message] by (simp add: handle_webhook_def)
qed

lemma sample_deliveries:
  "deliveries sample_notification =
     [(hello_message, sample_contacts), (image_message, sample_contacts), (hello_message, JArr [])]"
  by (simp add: sample_notification_def deliveries_def deliveries_of_entry_def
      deliveries_of_change_def messages_change_def)

theorem messages_handed_over_witness:
  "handle_webhook (Inr sample_notification) w_fresh =
     (RetStatus ''OK'' 200,
      process_message hello_message (JArr [])
        (process_message image_message sample_contacts
          (process_message hello_message sample_contacts w_fresh)))"
proof -
  have h1: "accepted sample_notification"
    by (simp add: sample_notification_def)
  have h2: "notification_shaped sample_notification"
    by (simp add: sample_notification_def notification_shaped_def entry_shaped_def
        change_shaped_def messages_change_def)
  show ?thesis
    using messages_handed_over [OF h1 h2, of process_message w_fresh]
    by (simp add: sample_deliveries)
qed

text \<open>
  Outside the provider's shape the walk ends where an element cannot be read: here the
  first entry is a number, \<open>entry.get\<close> raises, and the \<open>except\<close> clause answers
  \<open>'OK', 200\<close> without any message handed over.
\<close>

lemma walk_ends_at_misshapen_entry:
  "accepted misshapen_notification \<and> \<not> notification_shaped misshapen_notification
   \<and> handle_webhook_with pm (Inr misshapen_notification) w = (RetStatus ''OK'' 200, w)"
  by (simp add: misshapen_notification_def notification_shaped_def entry_shaped_def
      handle_webhook_with_def handle_webhook_body_def handle_entry_def and_then_def)

text \<open>
  C9 as stated, over every accepted notification, fails at this one: its second entry
  holds a message entry in the value of a change about messages, and handing it to
  \<open>process_message\<close> in the state \<open>w_fresh\<close> would create a thread and append to it; the
  handler leaves \<open>w_fresh\<close> as it is, so the entry was not handed over.
\<close>

theorem misshapen_entry_drops_message:
  "accepted misshapen_notification
   \<and> deliveries misshapen_notification = [(hello_message, JArr [])]
   \<and> handle_webhook (Inr misshapen_notification) w_fresh = (RetStatus ''OK'' 200, w_fresh)
   \<and> sent w_fresh = []
   \<and> sent (process_message hello_message (JArr []) w_fresh)
       = [CreateThread, AddMessage (JStr ''thread_1'') (JStr ''Hello'')]"
proof -
  have a: "accepted misshapen_notification"
    by (simp add: misshapen_notification_def)
  have d: "deliveries misshapen_notification = [(hello_message, JArr [])]"
    by (simp add: misshapen_notification_def deliveries_def deliveries_of_entry_def
        deliveries_of_change_def messages_change_def)
  have h: "handle_webhook (Inr misshapen_notification) w_fresh = (RetStatus ''OK'' 200, w_fresh)"
    by (simp add: handle_webhook_def misshapen_notification_def handle_webhook_with_def
        handle_webhook_body_def handle_entry_def and_then_def)
  have s: "sent w_fresh = []"
    by (simp add: w_fresh_def)
  have p: "sent (process_message hello_message (JArr []) w_fresh)
       = [CreateThread, AddMessage (JStr ''thread_1'') (JStr ''Hello'')]"
    by (simp add: process_message_def process_message_body_def hello_message_def w_fresh_def
        thread_created_def get_or_create_thread_def add_message_to_thread_def http_client_def
        and_then_def)
  show ?thesis
    using a d h s p by simp
qed

section \<open>A complete run\<close>

text \<open>
  The scenario of the specification: one text message \<open>Hello\<close> from sender \<open>111\<close>, the
  assistant replies \<open>Hi there\<close>. The handler creates the thread, appends the message,
  starts the run, polls it twice, reads the messages and sends exactly one reply, to
  \<open>111\<close>, with body \<open>Hi there\<close>.
\<close>

lemma end_to_end_scenario:
  "handle_webhook (Inr hello_notification) w_replying =
     (RetStatus ''OK'' 200,
      \<lparr>threads = [KStr ''111'' \<mapsto> JStr ''thread_1''],
       sent = [CreateThread, AddMessage (JStr ''thread_1'') (JStr ''Hello''),
               StartRun (JStr ''thread_1''), GetRun (JStr ''thread_1'') (JStr ''run_1''),
               GetRun (JStr ''thread_1'') (JStr ''run_1''), ListMessages (JStr ''thread_1''),
               SendText (JStr ''111'') (JStr ''Hi there'')],
       remote = []\<rparr>)"
  by (simp add: handle_webhook_def handle_webhook_with_def handle_webhook_body_def
      handle_entry_def handle_change_def hand_over_def hello_notification_def
      sample_contacts_def hello_message_def w_replying_def thread_created_def
      run_started_def running_def completed_def reply_item_def
      process_message_def process_message_body_def get_or_create_thread_def
      add_message_to_thread_def run_assistant_def run_assistant_body_def max_attempts_def
      eval_nat_numeral fetch_reply_def first_text_def item_text_def send_message_def
      http_client_def and_then_def)

end
